theory Spec2Isabelle
  imports Main
begin

section \<open>The dw-image component (src/dw-image.js, class DwImage with fullscreen support)\<close>

text \<open>
  The component is a LitElement. Its handlers run one at a time on the UI thread; each
  mutates the reactive properties of the instance and dispatches CustomEvents on
  \<^verbatim>\<open>window\<close>. After the handlers of one event have run, Lit performs the pending update:
  it renders and calls \<^verbatim>\<open>updated(changedProperties)\<close>.

  The model keeps the properties the handlers read and write, the part of
  \<^verbatim>\<open>document\<close> they consult, the pending \<^verbatim>\<open>setTimeout\<close> callbacks and, in order, every
  observable effect (events dispatched on \<^verbatim>\<open>window\<close>, calls of the platform's fullscreen
  primitives, uncaught exceptions, unhandled promise rejections).

  The platform is outside the component. What it does arrives as an event: a click with its
  propagation path, a key press, a \<^verbatim>\<open>fullscreenchange\<close> notification together with the new
  state of \<^verbatim>\<open>document.fullscreenElement\<close>, the expiry of a timer, the settling of a
  promise. A platform that declines a fullscreen request sends no \<^verbatim>\<open>fullscreenchange\<close>; where
  the request was made with the standard primitive it rejects the promise that
  \<^verbatim>\<open>requestFullscreen()\<close> returned. Time is not measured: a timer records its delay and fires
  as a later event. The styles and the \<^verbatim>\<open>auto\<close> and \<^verbatim>\<open>loading\<close> properties are left out, and so
  is the promise of \<^verbatim>\<open>document.exitFullscreen()\<close>.
\<close>

subsection \<open>JavaScript values\<close>

text \<open>
  A Boolean property is \<^verbatim>\<open>undefined\<close> until it is first assigned: \<open>None\<close> is
  \<^verbatim>\<open>undefined\<close>. Likewise for String properties (\<open>None\<close>: \<^verbatim>\<open>undefined\<close> or \<^verbatim>\<open>null\<close>).
\<close>

definition truthy :: "bool option \<Rightarrow> bool" where
  "truthy b = (b = Some True)"

definition truthy_str :: "string option \<Rightarrow> bool" where
  "truthy_str s = (case s of None \<Rightarrow> False | Some x \<Rightarrow> x \<noteq> [])"

text \<open>\<^verbatim>\<open>a || b\<close> on string-or-undefined operands.\<close>

definition js_or :: "string option \<Rightarrow> string option \<Rightarrow> string option" where
  "js_or a b = (if truthy_str a then a else b)"

subsection \<open>The instance, the document and the observable effects\<close>

record DwImage =
  src :: "string option"
  title :: "string option"
  disableZoom :: "bool option"
  zoomSrc :: "string option"
  isZoomMode :: "bool option"
  fullScreen :: "bool option"

text \<open>
  \<open>fullscreenElement\<close> says whether \<^verbatim>\<open>document.fullscreenElement\<close> is non-null. The other
  fields say which of the vendor-specific fullscreen primitives exist on the overlay element
  and on the document.
\<close>

record document =
  fullscreenElement :: bool
  has_requestFullscreen :: bool
  has_webkitRequestFullscreen :: bool
  has_msRequestFullscreen :: bool
  has_exitFullscreen :: bool
  has_webkitExitFullscreen :: bool
  has_msExitFullscreen :: bool
  has_mozCancelFullScreen :: bool

datatype platform_call =
    RequestFullscreen | WebkitRequestFullscreen | MsRequestFullscreen
  | ExitFullscreen | WebkitExitFullscreen | MozCancelFullScreen

datatype error = TypeError

text \<open>
  \<open>Opened image\<close> is the CustomEvent \<^verbatim>\<open>dw-image-opened\<close> with detail \<^verbatim>\<open>{image}\<close>,
  \<open>Closed image ux\<close> is \<^verbatim>\<open>dw-image-closed\<close> with detail \<^verbatim>\<open>{image, ux}\<close> and
  \<open>Fullscreen image enabled\<close> is \<^verbatim>\<open>dw-image-fullscreen\<close> with detail \<^verbatim>\<open>{image, enabled}\<close>.
  \<open>Uncaught\<close> is an exception that leaves a handler, \<open>UnhandledRejection\<close> the rejection of a
  promise to which no reaction was attached.
\<close>

datatype effect =
    Opened "string option"
  | Closed "string option" string
  | Fullscreen "string option" bool
  | Platform platform_call
  | Uncaught error
  | UnhandledRejection error

text \<open>
  \<open>settled\<close> counts the promises of \<^verbatim>\<open>requestFullscreen()\<close> that the platform has fulfilled or
  rejected so far.
\<close>

record world =
  host :: DwImage
  page :: document
  timers :: "nat list"
  settled :: nat
  trace :: "effect list"

text \<open>
  A task is the world while the handlers of one event run, together with whether
  \<^verbatim>\<open>_fullScreen\<close> has been entered into Lit's \<^verbatim>\<open>changedProperties\<close> for the pending update.
\<close>

type_synonym task = "world \<times> bool"

definition dispatchEvent :: "effect \<Rightarrow> world \<Rightarrow> world" where
  "dispatchEvent e w = w\<lparr>trace := trace w @ [e]\<rparr>"

definition set_isZoomMode :: "bool \<Rightarrow> world \<Rightarrow> world" where
  "set_isZoomMode v w = w\<lparr>host := (host w)\<lparr>isZoomMode := Some v\<rparr>\<rparr>"

text \<open>
  Lit's property setter requests an update and records the property as changed when the new
  value differs from the old one (\<^verbatim>\<open>!==\<close>); \<^verbatim>\<open>undefined\<close> differs from \<^verbatim>\<open>false\<close>.
\<close>

definition set_fullScreen :: "bool \<Rightarrow> task \<Rightarrow> task" where
  "set_fullScreen v t =
     (case t of (w, ch) \<Rightarrow>
        (w\<lparr>host := (host w)\<lparr>fullScreen := Some v\<rparr>\<rparr>, ch \<or> fullScreen (host w) \<noteq> Some v))"

subsection \<open>Rendering: \<^verbatim>\<open>_zoomImageTemplate\<close>\<close>

datatype ui_node = InlineImg | ZoomImg | FullScreenBtn | ExitFullScreenBtn | CloseBtn

record overlay =
  toggle :: ui_node
  close :: ui_node
  img_title :: "string option"
  img_src :: "string option"

definition zoomImageTemplate :: "DwImage \<Rightarrow> overlay option" where
  "zoomImageTemplate s =
     (if \<not> truthy (isZoomMode s) \<or> truthy (disableZoom s) then None
      else Some \<lparr>toggle = (if truthy (fullScreen s) then ExitFullScreenBtn else FullScreenBtn),
                 close = CloseBtn,
                 img_title = title s,
                 img_src = js_or (zoomSrc s) (src s)\<rparr>)"

text \<open>Which nodes carrying a listener are in the rendered DOM.\<close>

definition rendered :: "DwImage \<Rightarrow> ui_node \<Rightarrow> bool" where
  "rendered s n =
     (case n of
        InlineImg \<Rightarrow> True
      | _ \<Rightarrow> (case zoomImageTemplate s of
                None \<Rightarrow> False
              | Some ov \<Rightarrow> n = ZoomImg \<or> n = toggle ov \<or> n = close ov))"

text \<open>\<^verbatim>\<open>_requstedFullScreenEl\<close>: whether \<^verbatim>\<open>querySelector('.overlay')\<close> finds the overlay.\<close>

definition requstedFullScreenEl :: "DwImage \<Rightarrow> bool" where
  "requstedFullScreenEl s = (zoomImageTemplate s \<noteq> None)"

subsection \<open>\<^verbatim>\<open>_requestFullScreen\<close>, \<^verbatim>\<open>_exitFullScreen\<close> and \<^verbatim>\<open>updated\<close>\<close>

text \<open>
  Of the three primitives only the standard \<^verbatim>\<open>requestFullscreen()\<close> returns a promise. The
  call is a statement of its own: the promise is dropped, with no reaction attached.
\<close>

definition requestFullScreen :: "DwImage \<Rightarrow> document \<Rightarrow> error + effect list" where
  "requestFullScreen s d =
     (if truthy (fullScreen s) \<and> \<not> fullscreenElement d then
        (if \<not> requstedFullScreenEl s then Inl TypeError
         else if has_requestFullscreen d then Inr [Platform RequestFullscreen]
         else if has_webkitRequestFullscreen d then Inr [Platform WebkitRequestFullscreen]
         else if has_msRequestFullscreen d then Inr [Platform MsRequestFullscreen]
         else Inr [])
      else Inr [])"

text \<open>
  The last branch tests \<^verbatim>\<open>document.msExitFullscreen\<close> and calls
  \<^verbatim>\<open>document.mozCancelFullScreen()\<close>, which throws where that function does not exist.
\<close>

definition exitFullScreen :: "DwImage \<Rightarrow> document \<Rightarrow> error + effect list" where
  "exitFullScreen s d =
     (if \<not> truthy (fullScreen s) \<and> fullscreenElement d then
        (if has_exitFullscreen d then Inr [Platform ExitFullscreen]
         else if has_webkitExitFullscreen d then Inr [Platform WebkitExitFullscreen]
         else if has_msExitFullscreen d then
           (if has_mozCancelFullScreen d then Inr [Platform MozCancelFullScreen]
            else Inl TypeError)
         else Inr [])
      else Inr [])"

definition andThen :: "error + effect list \<Rightarrow> effect list \<Rightarrow> error + effect list" where
  "andThen r es = (case r of Inl e \<Rightarrow> Inl e | Inr cs \<Rightarrow> Inr (cs @ es))"

definition updated :: "bool \<Rightarrow> DwImage \<Rightarrow> document \<Rightarrow> error + effect list" where
  "updated changedFullScreen s d =
     (if changedFullScreen \<and> truthy (isZoomMode s) then
        (if truthy (fullScreen s)
         then andThen (requestFullScreen s d) [Fullscreen (src s) True]
         else andThen (exitFullScreen s d) [Fullscreen (src s) False])
      else Inr [])"

text \<open>What an update adds to the trace: an exception thrown in \<^verbatim>\<open>updated\<close> is not caught.\<close>

definition update_effects :: "bool \<Rightarrow> DwImage \<Rightarrow> document \<Rightarrow> effect list" where
  "update_effects ch s d = (case updated ch s d of Inl e \<Rightarrow> [Uncaught e] | Inr es \<Rightarrow> es)"

text \<open>Lit's update after the handlers of an event: render, then \<^verbatim>\<open>updated\<close>.\<close>

definition performUpdate :: "task \<Rightarrow> world" where
  "performUpdate t =
     (case t of (w, ch) \<Rightarrow>
        w\<lparr>trace := trace w @ update_effects ch (host w) (page w)\<rparr>)"

subsection \<open>The handlers\<close>

text \<open>
  An entry of the propagation path, as \<^verbatim>\<open>__onClick\<close> reads it: \<^verbatim>\<open>el.tagName\<close> and \<^verbatim>\<open>el.id\<close>,
  both \<^verbatim>\<open>undefined\<close> for the document and the window.
\<close>

record element =
  tagName :: "string option"
  el_id :: "string option"

definition is_zoom_ui :: "element \<Rightarrow> bool" where
  "is_zoom_ui e =
     (tagName e = Some ''IMG'' \<or>
      (tagName e = Some ''DW-ICON-BUTTON'' \<and> el_id e = Some ''close-btn'') \<or>
      (tagName e = Some ''DW-ICON-BUTTON'' \<and> el_id e = Some ''full-screen'') \<or>
      (tagName e = Some ''DW-ICON-BUTTON'' \<and> el_id e = Some ''exit-full-screen''))"

text \<open>
  The \<^verbatim>\<open>forEach\<close> over the propagation path; the callback's \<^verbatim>\<open>return\<close> does not stop
  lodash's iteration.
\<close>

fun forEach_paths :: "element list \<Rightarrow> bool \<Rightarrow> bool" where
  "forEach_paths [] outsideImageClick = outsideImageClick"
| "forEach_paths (e # es) outsideImageClick =
     forEach_paths es (if is_zoom_ui e then False else outsideImageClick)"

definition onClick :: "element list \<Rightarrow> world \<Rightarrow> world" where
  "onClick paths w =
     (if truthy (fullScreen (host w)) then w
      else if forEach_paths paths True then
        dispatchEvent (Closed (src (host w)) ''OVERLAY_CLICK'') (set_isZoomMode False w)
      else w)"

text \<open>The handler reads \<^verbatim>\<open>e.keycode\<close> (in this spelling) and \<^verbatim>\<open>e.key\<close>.\<close>

record key_event =
  keycode :: "int option"
  key :: "string option"

definition is_escape :: "key_event \<Rightarrow> bool" where
  "is_escape e = (keycode e = Some 27 \<or> key e = Some ''Escape'' \<or> key e = Some ''Esc'')"

definition keydown :: "key_event \<Rightarrow> world \<Rightarrow> world" where
  "keydown e w =
     (if is_escape e then
        (if \<not> truthy (isZoomMode (host w)) then w
         else dispatchEvent (Closed (src (host w)) ''ESC'') (set_isZoomMode False w))
      else w)"

definition fullScreenChange :: "task \<Rightarrow> task" where
  "fullScreenChange t =
     (if fullscreenElement (page (fst t)) then set_fullScreen True t
      else set_fullScreen False t)"

definition setZoomMode :: "world \<Rightarrow> world" where
  "setZoomMode w =
     (if truthy (disableZoom (host w)) then w
      else dispatchEvent (Opened (src (host w))) (set_isZoomMode True w))"

text \<open>\<^verbatim>\<open>_closeZoomImage\<close> and the callback it hands to \<^verbatim>\<open>setTimeout(..., 100)\<close>.\<close>

definition closeZoomImage :: "task \<Rightarrow> task" where
  "closeZoomImage t =
     (case (if truthy (fullScreen (host (fst t))) then set_fullScreen False t else t) of
        (w, ch) \<Rightarrow> (w\<lparr>timers := timers w @ [100]\<rparr>, ch))"

definition closeZoomImage_timeout :: "world \<Rightarrow> world" where
  "closeZoomImage_timeout w =
     dispatchEvent (Closed (src (host w)) ''CLOSE_BUTTON'') (set_isZoomMode False w)"

subsection \<open>Events and steps\<close>

text \<open>
  A click carries its propagation path: the elements below the component's node that was hit
  (the inside of an icon button), that node if any, and the elements above it (wrappers, the
  host, the document). The listener bound to the node runs first, then the host's
  \<^verbatim>\<open>__onClick\<close>.
\<close>

definition element_of :: "ui_node \<Rightarrow> element" where
  "element_of n =
     (case n of
        InlineImg \<Rightarrow> \<lparr>tagName = Some ''IMG'', el_id = Some ''''\<rparr>
      | ZoomImg \<Rightarrow> \<lparr>tagName = Some ''IMG'', el_id = Some ''''\<rparr>
      | FullScreenBtn \<Rightarrow> \<lparr>tagName = Some ''DW-ICON-BUTTON'', el_id = Some ''full-screen''\<rparr>
      | ExitFullScreenBtn \<Rightarrow> \<lparr>tagName = Some ''DW-ICON-BUTTON'', el_id = Some ''exit-full-screen''\<rparr>
      | CloseBtn \<Rightarrow> \<lparr>tagName = Some ''DW-ICON-BUTTON'', el_id = Some ''close-btn''\<rparr>)"

record click_event =
  below :: "element list"
  node :: "ui_node option"
  above :: "element list"

definition composedPath :: "click_event \<Rightarrow> element list" where
  "composedPath c =
     below c @ (case node c of None \<Rightarrow> [] | Some n \<Rightarrow> [element_of n]) @ above c"

definition listener :: "ui_node \<Rightarrow> task \<Rightarrow> task" where
  "listener n t =
     (case n of
        InlineImg \<Rightarrow> (setZoomMode (fst t), snd t)
      | ZoomImg \<Rightarrow> t
      | FullScreenBtn \<Rightarrow> set_fullScreen True t
      | ExitFullScreenBtn \<Rightarrow> set_fullScreen False t
      | CloseBtn \<Rightarrow> closeZoomImage t)"

text \<open>
  The promises that \<^verbatim>\<open>requestFullscreen()\<close> has returned are its calls in the trace.
  \<open>RequestSettled ok\<close> is the platform settling the oldest pending one: fulfilled when
  \<open>ok\<close>, rejected otherwise. The component has no reaction to either, so a fulfilment shows
  nowhere and a rejection is unhandled.
\<close>

definition promises :: "world \<Rightarrow> nat" where
  "promises w = length (filter (\<lambda>x. x = Platform RequestFullscreen) (trace w))"

definition request_settled :: "bool \<Rightarrow> world \<Rightarrow> world" where
  "request_settled ok w =
     (if settled w < promises w then
        (if ok then w\<lparr>settled := Suc (settled w)\<rparr>
         else w\<lparr>settled := Suc (settled w),
                trace := trace w @ [UnhandledRejection TypeError]\<rparr>)
      else w)"

datatype event =
    Click click_event
  | KeyDown key_event
  | FullscreenChange bool
  | Timeout
  | RequestSettled bool

definition handle :: "event \<Rightarrow> world \<Rightarrow> task" where
  "handle ev w =
     (case ev of
        Click c \<Rightarrow>
          (case (case node c of None \<Rightarrow> (w, False) | Some n \<Rightarrow> listener n (w, False)) of
             (w', ch) \<Rightarrow> (onClick (composedPath c) w', ch))
      | KeyDown e \<Rightarrow> (keydown e w, False)
      | FullscreenChange b \<Rightarrow>
          fullScreenChange (w\<lparr>page := (page w)\<lparr>fullscreenElement := b\<rparr>\<rparr>, False)
      | Timeout \<Rightarrow>
          (case timers w of
             [] \<Rightarrow> (w, False)
           | t # ts \<Rightarrow> (closeZoomImage_timeout (w\<lparr>timers := ts\<rparr>), False))
      | RequestSettled ok \<Rightarrow> (request_settled ok w, False))"

definition step :: "world \<Rightarrow> event \<Rightarrow> world" where
  "step w ev = performUpdate (handle ev w)"

fun run :: "world \<Rightarrow> event list \<Rightarrow> world" where
  "run w [] = w"
| "run w (ev # evs) = run (step w ev) evs"

text \<open>An event the component can receive in a world: a click hits only what is rendered.\<close>

definition enabled :: "world \<Rightarrow> event \<Rightarrow> bool" where
  "enabled w ev =
     (case ev of
        Click c \<Rightarrow> (case node c of None \<Rightarrow> True | Some n \<Rightarrow> rendered (host w) n)
      | KeyDown e \<Rightarrow> True
      | FullscreenChange b \<Rightarrow> True
      | Timeout \<Rightarrow> timers w \<noteq> []
      | RequestSettled ok \<Rightarrow> settled w < promises w)"

subsection \<open>The view state\<close>

datatype screen = Windowed | Fullscreen_mode

datatype view_state = Closed_view | Zoomed screen

definition view_state :: "DwImage \<Rightarrow> view_state" where
  "view_state s =
     (if truthy (isZoomMode s)
      then Zoomed (if truthy (fullScreen s) then Fullscreen_mode else Windowed)
      else Closed_view)"

subsection \<open>The initial world\<close>

text \<open>
  The constructor leaves \<^verbatim>\<open>_isZoomMode\<close> and \<^verbatim>\<open>_fullScreen\<close> \<^verbatim>\<open>undefined\<close>; \<^verbatim>\<open>src\<close>,
  \<^verbatim>\<open>zoomSrc\<close> and \<^verbatim>\<open>disableZoom\<close> come from the attributes of the element.
\<close>

definition constructed :: "string option \<Rightarrow> string option \<Rightarrow> bool option \<Rightarrow> DwImage" where
  "constructed s z dz =
     \<lparr>src = s, title = None, disableZoom = dz, zoomSrc = z, isZoomMode = None, fullScreen = None\<rparr>"

definition browser :: document where
  "browser =
     \<lparr>fullscreenElement = False,
      has_requestFullscreen = True, has_webkitRequestFullscreen = False,
      has_msRequestFullscreen = False,
      has_exitFullscreen = True, has_webkitExitFullscreen = False,
      has_msExitFullscreen = False, has_mozCancelFullScreen = False\<rparr>"

definition init :: "DwImage \<Rightarrow> world" where
  "init s = \<lparr>host = s, page = browser, timers = [], settled = 0, trace = []\<rparr>"

subsection \<open>Observations on traces and events\<close>

definition is_closed :: "effect \<Rightarrow> bool" where
  "is_closed x = (case x of Closed i u \<Rightarrow> True | _ \<Rightarrow> False)"

definition is_request :: "effect \<Rightarrow> bool" where
  "is_request x =
     (x = Platform RequestFullscreen \<or> x = Platform WebkitRequestFullscreen \<or>
      x = Platform MsRequestFullscreen)"

definition is_error :: "effect \<Rightarrow> bool" where
  "is_error x =
     (case x of Uncaught e \<Rightarrow> True | UnhandledRejection e \<Rightarrow> True | _ \<Rightarrow> False)"

definition toggle_click :: "event \<Rightarrow> bool" where
  "toggle_click ev = (case ev of Click c \<Rightarrow> node c = Some FullScreenBtn | _ \<Rightarrow> False)"

definition platform_event :: "event \<Rightarrow> bool" where
  "platform_event ev =
     (case ev of FullscreenChange b \<Rightarrow> True | RequestSettled ok \<Rightarrow> True | _ \<Rightarrow> False)"

subsection \<open>An example instance and example events\<close>

definition example :: DwImage where
  "example = constructed (Some ''a.jpg'') (Some ''a_hi.jpg'') None"

definition disabled_example :: DwImage where
  "disabled_example = constructed (Some ''a.jpg'') None (Some True)"

text \<open>A document that has the prefixed WebKit primitives only.\<close>

definition webkit_only :: document where
  "webkit_only =
     \<lparr>fullscreenElement = False,
      has_requestFullscreen = False, has_webkitRequestFullscreen = True,
      has_msRequestFullscreen = False,
      has_exitFullscreen = False, has_webkitExitFullscreen = True,
      has_msExitFullscreen = False, has_mozCancelFullScreen = False\<rparr>"

definition click_on :: "ui_node \<Rightarrow> click_event" where
  "click_on n =
     \<lparr>below = [], node = Some n,
      above = [\<lparr>tagName = Some ''DW-IMAGE'', el_id = Some ''''\<rparr>,
               \<lparr>tagName = None, el_id = None\<rparr>]\<rparr>"

definition overlay_click :: click_event where
  "overlay_click =
     \<lparr>below = [\<lparr>tagName = Some ''DIV'', el_id = Some ''''\<rparr>], node = None,
      above = [\<lparr>tagName = Some ''DW-IMAGE'', el_id = Some ''''\<rparr>,
               \<lparr>tagName = None, el_id = None\<rparr>]\<rparr>"

definition escape_key :: key_event where
  "escape_key = \<lparr>keycode = None, key = Some ''Escape''\<rparr>"

definition zoomed_windowed :: world where
  "zoomed_windowed = run (init example) [Click (click_on InlineImg)]"

definition zoomed_windowed_webkit :: world where
  "zoomed_windowed_webkit = zoomed_windowed\<lparr>page := webkit_only\<rparr>"

definition zoomed_fullscreen :: world where
  "zoomed_fullscreen =
     run zoomed_windowed [Click (click_on FullScreenBtn), FullscreenChange True]"

section \<open>Properties of the handlers\<close>

subsection \<open>What \<^verbatim>\<open>updated\<close> emits\<close>

lemma update_effects_none [simp]: "update_effects False s d = []"
  by (simp add: update_effects_def updated_def)

lemma update_effects_enter:
  "fullScreen s = Some True \<Longrightarrow> isZoomMode s = Some True \<Longrightarrow>
   update_effects True s d =
     (if fullscreenElement d then [Fullscreen (src s) True]
      else if truthy (disableZoom s) then [Uncaught TypeError]
      else if has_requestFullscreen d then [Platform RequestFullscreen, Fullscreen (src s) True]
      else if has_webkitRequestFullscreen d
        then [Platform WebkitRequestFullscreen, Fullscreen (src s) True]
      else if has_msRequestFullscreen d
        then [Platform MsRequestFullscreen, Fullscreen (src s) True]
      else [Fullscreen (src s) True])"
  by (simp add: update_effects_def updated_def andThen_def requestFullScreen_def
      requstedFullScreenEl_def zoomImageTemplate_def truthy_def)

lemma update_effects_leave:
  "fullScreen s = Some False \<Longrightarrow> isZoomMode s = Some True \<Longrightarrow>
   update_effects True s d =
     (if \<not> fullscreenElement d then [Fullscreen (src s) False]
      else if has_exitFullscreen d then [Platform ExitFullscreen, Fullscreen (src s) False]
      else if has_webkitExitFullscreen d
        then [Platform WebkitExitFullscreen, Fullscreen (src s) False]
      else if has_msExitFullscreen d then
        (if has_mozCancelFullScreen d
         then [Platform MozCancelFullScreen, Fullscreen (src s) False]
         else [Uncaught TypeError])
      else [Fullscreen (src s) False])"
  by (simp add: update_effects_def updated_def andThen_def exitFullScreen_def truthy_def)

lemma update_effects_kinds:
  "x \<in> set (update_effects ch s d) \<Longrightarrow>
   (\<exists>p. x = Platform p) \<or> (\<exists>b. x = Fullscreen (src s) b) \<or> x = Uncaught TypeError"
  by (auto simp: update_effects_def updated_def andThen_def requestFullScreen_def
      exitFullScreen_def split: if_splits sum.splits)

lemma update_effects_no_closed: "filter is_closed (update_effects ch s d) = []"
  by (auto simp: filter_empty_conv is_closed_def dest!: update_effects_kinds)

lemma update_effects_no_request:
  "\<not> truthy (fullScreen s) \<or> fullscreenElement d \<Longrightarrow>
   filter is_request (update_effects ch s d) = []"
  by (auto simp: filter_empty_conv is_request_def update_effects_def updated_def andThen_def
      requestFullScreen_def exitFullScreen_def split: if_splits sum.splits)

lemma update_effects_no_error:
  "\<not> truthy (fullScreen s) \<Longrightarrow> \<not> fullscreenElement d \<Longrightarrow>
   filter is_error (update_effects ch s d) = []"
  by (auto simp: filter_empty_conv is_error_def update_effects_def updated_def andThen_def
      requestFullScreen_def exitFullScreen_def split: if_splits sum.splits)

subsection \<open>One step, event by event\<close>

text \<open>
  The element of a node that carries a listener is an image or a known control, so
  \<^verbatim>\<open>__onClick\<close> does nothing after such a listener has run: the order in which the pending
  update and \<^verbatim>\<open>__onClick\<close> follow the listener does not show in the trace.
\<close>

lemma forEach_paths_eq:
  "forEach_paths ps b = (b \<and> (\<forall>e\<in>set ps. \<not> is_zoom_ui e))"
  by (induction ps arbitrary: b) auto

lemma path_of_node: "node c = Some n \<Longrightarrow> \<not> forEach_paths (composedPath c) True"
  by (cases n) (simp_all add: forEach_paths_eq composedPath_def element_of_def is_zoom_ui_def)

lemma onClick_inside: "\<not> forEach_paths ps True \<Longrightarrow> onClick ps w = w"
  by (simp add: onClick_def)

lemma performUpdate_unchanged: "performUpdate (w, False) = w"
  by (simp add: performUpdate_def update_effects_def updated_def)

lemma performUpdate_eq:
  "performUpdate (w, ch) = w\<lparr>trace := trace w @ update_effects ch (host w) (page w)\<rparr>"
  by (simp add: performUpdate_def)

lemma step_KeyDown: "step w (KeyDown e) = keydown e w"
  by (simp add: step_def handle_def performUpdate_unchanged)

lemma step_Timeout:
  "step w Timeout =
     (case timers w of [] \<Rightarrow> w | t # ts \<Rightarrow> closeZoomImage_timeout (w\<lparr>timers := ts\<rparr>))"
  by (simp add: step_def handle_def performUpdate_unchanged split: list.splits)

lemma step_Timeout_pending:
  "timers w \<noteq> [] \<Longrightarrow>
   step w Timeout = closeZoomImage_timeout (w\<lparr>timers := tl (timers w)\<rparr>)"
  by (cases "timers w") (simp_all add: step_Timeout)

lemma step_RequestSettled: "step w (RequestSettled ok) = request_settled ok w"
  by (simp add: step_def handle_def performUpdate_unchanged)

lemma step_FullscreenChange:
  "step w (FullscreenChange b) =
     performUpdate (set_fullScreen b (w\<lparr>page := (page w)\<lparr>fullscreenElement := b\<rparr>\<rparr>, False))"
  by (simp add: step_def handle_def fullScreenChange_def)

lemma step_platform:
  "step w (FullscreenChange b) =
     w\<lparr>host := (host w)\<lparr>fullScreen := Some b\<rparr>,
       page := (page w)\<lparr>fullscreenElement := b\<rparr>,
       trace := trace w @
         update_effects (fullScreen (host w) \<noteq> Some b)
           ((host w)\<lparr>fullScreen := Some b\<rparr>) ((page w)\<lparr>fullscreenElement := b\<rparr>)\<rparr>"
  by (simp add: step_FullscreenChange set_fullScreen_def performUpdate_eq)

lemma step_Click_outside: "node c = None \<Longrightarrow> step w (Click c) = onClick (composedPath c) w"
  by (simp add: step_def handle_def performUpdate_unchanged)

lemma step_Click_node:
  "node c = Some n \<Longrightarrow> step w (Click c) = performUpdate (listener n (w, False))"
  by (simp add: step_def handle_def onClick_inside path_of_node split: prod.splits)

lemma step_Click_InlineImg: "node c = Some InlineImg \<Longrightarrow> step w (Click c) = setZoomMode w"
  by (simp add: step_Click_node listener_def performUpdate_unchanged)

lemma step_Click_ZoomImg: "node c = Some ZoomImg \<Longrightarrow> step w (Click c) = w"
  by (simp add: step_Click_node listener_def performUpdate_unchanged)

lemma step_toggle:
  "node c = Some FullScreenBtn \<Longrightarrow>
   step w (Click c) =
     w\<lparr>host := (host w)\<lparr>fullScreen := Some True\<rparr>,
       trace := trace w @
         update_effects (fullScreen (host w) \<noteq> Some True)
           ((host w)\<lparr>fullScreen := Some True\<rparr>) (page w)\<rparr>"
  by (simp add: step_Click_node listener_def set_fullScreen_def performUpdate_eq)

lemma step_exit_toggle:
  "node c = Some ExitFullScreenBtn \<Longrightarrow>
   step w (Click c) =
     w\<lparr>host := (host w)\<lparr>fullScreen := Some False\<rparr>,
       trace := trace w @
         update_effects (fullScreen (host w) \<noteq> Some False)
           ((host w)\<lparr>fullScreen := Some False\<rparr>) (page w)\<rparr>"
  by (simp add: step_Click_node listener_def set_fullScreen_def performUpdate_eq)

lemma step_close:
  "node c = Some CloseBtn \<Longrightarrow>
   step w (Click c) =
     (if truthy (fullScreen (host w)) then
        w\<lparr>host := (host w)\<lparr>fullScreen := Some False\<rparr>,
          timers := timers w @ [100],
          trace := trace w @ update_effects True ((host w)\<lparr>fullScreen := Some False\<rparr>) (page w)\<rparr>
      else w\<lparr>timers := timers w @ [100]\<rparr>)"
  by (simp add: step_Click_node listener_def closeZoomImage_def set_fullScreen_def
      performUpdate_eq truthy_def update_effects_def updated_def)

subsection \<open>The view state in terms of the two flags\<close>

lemma view_state_simps:
  "view_state s = Closed_view \<longleftrightarrow> isZoomMode s \<noteq> Some True"
  "view_state s = Zoomed Windowed \<longleftrightarrow> isZoomMode s = Some True \<and> fullScreen s \<noteq> Some True"
  "view_state s = Zoomed Fullscreen_mode \<longleftrightarrow> isZoomMode s = Some True \<and> fullScreen s = Some True"
  by (simp_all add: view_state_def truthy_def)

subsection \<open>What one step adds to the trace and does to the flags\<close>

lemma closed_step:
  "filter is_closed (trace (step w ev)) =
   filter is_closed (trace w) \<or>
   (\<exists>u \<in> {''ESC'', ''OVERLAY_CLICK'', ''CLOSE_BUTTON''}.
      filter is_closed (trace (step w ev)) = filter is_closed (trace w) @ [Closed (src (host w)) u])"
proof (cases ev)
  case (Click c)
  show ?thesis
  proof (cases "node c")
    case None
    then show ?thesis
      by (simp add: Click step_Click_outside onClick_def dispatchEvent_def set_isZoomMode_def
          is_closed_def)
  next
    case (Some n)
    then show ?thesis
      by (cases n)
        (simp_all add: Click step_Click_InlineImg step_Click_ZoomImg step_toggle
          step_exit_toggle step_close update_effects_no_closed setZoomMode_def
          dispatchEvent_def set_isZoomMode_def is_closed_def)
  qed
next
  case (KeyDown e)
  then show ?thesis
    by (simp add: step_KeyDown keydown_def dispatchEvent_def set_isZoomMode_def is_closed_def)
next
  case (FullscreenChange b)
  then show ?thesis
    by (simp add: step_platform update_effects_no_closed)
next
  case Timeout
  then show ?thesis
    by (simp add: step_Timeout closeZoomImage_timeout_def dispatchEvent_def set_isZoomMode_def
        is_closed_def split: list.splits)
next
  case (RequestSettled ok)
  then show ?thesis
    by (simp add: step_RequestSettled request_settled_def is_closed_def)
qed

lemma requests_step:
  assumes "\<not> toggle_click ev"
  shows "filter is_request (trace (step w ev)) = filter is_request (trace w)"
proof (cases ev)
  case (Click c)
  show ?thesis
  proof (cases "node c")
    case None
    then show ?thesis
      by (simp add: Click step_Click_outside onClick_def dispatchEvent_def set_isZoomMode_def
          is_request_def)
  next
    case (Some n)
    with assms Click show ?thesis
      by (cases n)
        (simp_all add: toggle_click_def step_Click_InlineImg step_Click_ZoomImg
          step_exit_toggle step_close update_effects_no_request setZoomMode_def
          dispatchEvent_def set_isZoomMode_def is_request_def truthy_def)
  qed
next
  case (KeyDown e)
  then show ?thesis
    by (simp add: step_KeyDown keydown_def dispatchEvent_def set_isZoomMode_def is_request_def)
next
  case (FullscreenChange b)
  then show ?thesis
    by (cases b) (simp_all add: step_platform update_effects_no_request truthy_def)
next
  case Timeout
  then show ?thesis
    by (simp add: step_Timeout closeZoomImage_timeout_def dispatchEvent_def set_isZoomMode_def
        is_request_def split: list.splits)
next
  case (RequestSettled ok)
  then show ?thesis
    by (simp add: step_RequestSettled request_settled_def is_request_def)
qed

lemma errors_step:
  assumes "\<not> toggle_click ev" "\<not> platform_event ev" "\<not> fullscreenElement (page w)"
  shows "filter is_error (trace (step w ev)) = filter is_error (trace w) \<and>
         page (step w ev) = page w"
proof (cases ev)
  case (Click c)
  show ?thesis
  proof (cases "node c")
    case None
    then show ?thesis
      by (simp add: Click step_Click_outside onClick_def dispatchEvent_def set_isZoomMode_def
          is_error_def)
  next
    case (Some n)
    with assms Click show ?thesis
      by (cases n)
        (simp_all add: toggle_click_def step_Click_InlineImg step_Click_ZoomImg
          step_exit_toggle step_close update_effects_no_error setZoomMode_def
          dispatchEvent_def set_isZoomMode_def is_error_def truthy_def)
  qed
next
  case (KeyDown e)
  then show ?thesis
    by (simp add: step_KeyDown keydown_def dispatchEvent_def set_isZoomMode_def is_error_def)
next
  case (FullscreenChange b)
  with assms show ?thesis
    by (simp add: platform_event_def)
next
  case Timeout
  then show ?thesis
    by (simp add: step_Timeout closeZoomImage_timeout_def dispatchEvent_def set_isZoomMode_def
        is_error_def split: list.splits)
next
  case (RequestSettled ok)
  with assms show ?thesis
    by (simp add: platform_event_def)
qed

lemma run_quiet:
  "\<forall>ev\<in>set evs. \<not> toggle_click ev \<and> \<not> platform_event ev \<Longrightarrow>
   \<not> fullscreenElement (page w) \<Longrightarrow>
   filter is_request (trace (run w evs)) = filter is_request (trace w) \<and>
   filter is_error (trace (run w evs)) = filter is_error (trace w)"
proof (induction evs arbitrary: w)
  case Nil
  then show ?case by simp
next
  case (Cons ev evs)
  from Cons.prems have ev: "\<not> toggle_click ev" "\<not> platform_event ev"
    and rest: "\<forall>ev\<in>set evs. \<not> toggle_click ev \<and> \<not> platform_event ev"
    by simp_all
  from errors_step [OF ev Cons.prems(2)]
  have u: "filter is_error (trace (step w ev)) = filter is_error (trace w)"
    and p: "\<not> fullscreenElement (page (step w ev))"
    using Cons.prems(2) by simp_all
  from Cons.IH [OF rest p] requests_step [OF ev(1), of w] u
  show ?case by simp
qed

lemma fullScreen_step:
  "fullScreen (host (step w ev)) =
     (case ev of
        Click c \<Rightarrow>
          (case node c of
             Some FullScreenBtn \<Rightarrow> Some True
           | Some ExitFullScreenBtn \<Rightarrow> Some False
           | Some CloseBtn \<Rightarrow>
               if truthy (fullScreen (host w)) then Some False else fullScreen (host w)
           | _ \<Rightarrow> fullScreen (host w))
      | FullscreenChange b \<Rightarrow> Some b
      | _ \<Rightarrow> fullScreen (host w))"
proof (cases ev)
  case (Click c)
  show ?thesis
  proof (cases "node c")
    case None
    then show ?thesis
      by (simp add: Click step_Click_outside onClick_def dispatchEvent_def set_isZoomMode_def)
  next
    case (Some n)
    then show ?thesis
      by (cases n)
        (simp_all add: Click step_Click_InlineImg step_Click_ZoomImg step_toggle
          step_exit_toggle step_close setZoomMode_def dispatchEvent_def set_isZoomMode_def)
  qed
next
  case (KeyDown e)
  then show ?thesis
    by (simp add: step_KeyDown keydown_def dispatchEvent_def set_isZoomMode_def)
next
  case (FullscreenChange b)
  then show ?thesis
    by (simp add: step_platform)
next
  case Timeout
  then show ?thesis
    by (simp add: step_Timeout closeZoomImage_timeout_def dispatchEvent_def set_isZoomMode_def
        split: list.splits)
next
  case (RequestSettled ok)
  then show ?thesis
    by (simp add: step_RequestSettled request_settled_def)
qed

lemma isZoomMode_step_Click_node:
  "node c = Some n \<Longrightarrow> truthy (isZoomMode (host w)) \<Longrightarrow>
   truthy (isZoomMode (host (step w (Click c))))"
  by (cases n)
    (simp_all add: step_Click_InlineImg step_Click_ZoomImg step_toggle
      step_exit_toggle step_close setZoomMode_def dispatchEvent_def set_isZoomMode_def truthy_def)

subsection \<open>The example run, evaluated\<close>

lemma node_click_on: "node (click_on n) = Some n"
  by (simp add: click_on_def)

lemma overlay_click_outside:
  "node overlay_click = None" "\<forall>e\<in>set (composedPath overlay_click). \<not> is_zoom_ui e"
  by (simp_all add: overlay_click_def composedPath_def is_zoom_ui_def)

lemma overlay_click_path: "forEach_paths (composedPath overlay_click) True"
  by (simp add: forEach_paths_eq overlay_click_outside)

lemma is_escape_escape_key: "is_escape escape_key"
  by (simp add: is_escape_def escape_key_def)

lemma init_example_eq:
  "init example =
     \<lparr>host = \<lparr>src = Some ''a.jpg'', title = None, disableZoom = None,
              zoomSrc = Some ''a_hi.jpg'', isZoomMode = None, fullScreen = None\<rparr>,
      page = browser, timers = [], settled = 0, trace = []\<rparr>"
  by (simp add: init_def example_def constructed_def)

lemma zoomed_windowed_eq:
  "zoomed_windowed =
     \<lparr>host = \<lparr>src = Some ''a.jpg'', title = None, disableZoom = None,
              zoomSrc = Some ''a_hi.jpg'', isZoomMode = Some True, fullScreen = None\<rparr>,
      page = browser, timers = [], settled = 0, trace = [Opened (Some ''a.jpg'')]\<rparr>"
  by (simp add: zoomed_windowed_def init_example_eq step_Click_InlineImg node_click_on
      setZoomMode_def dispatchEvent_def set_isZoomMode_def truthy_def)

lemma toggled_eq:
  "step zoomed_windowed (Click (click_on FullScreenBtn)) =
     \<lparr>host = \<lparr>src = Some ''a.jpg'', title = None, disableZoom = None,
              zoomSrc = Some ''a_hi.jpg'', isZoomMode = Some True, fullScreen = Some True\<rparr>,
      page = browser, timers = [], settled = 0,
      trace = [Opened (Some ''a.jpg''), Platform RequestFullscreen,
               Fullscreen (Some ''a.jpg'') True]\<rparr>"
  by (simp add: zoomed_windowed_eq step_toggle node_click_on update_effects_enter
      browser_def truthy_def)

lemma zoomed_fullscreen_eq:
  "zoomed_fullscreen =
     \<lparr>host = \<lparr>src = Some ''a.jpg'', title = None, disableZoom = None,
              zoomSrc = Some ''a_hi.jpg'', isZoomMode = Some True, fullScreen = Some True\<rparr>,
      page = browser\<lparr>fullscreenElement := True\<rparr>, timers = [], settled = 0,
      trace = [Opened (Some ''a.jpg''), Platform RequestFullscreen,
               Fullscreen (Some ''a.jpg'') True]\<rparr>"
  by (simp add: zoomed_fullscreen_def toggled_eq step_platform)

lemma escaped_eq:
  "step (step zoomed_windowed (Click (click_on FullScreenBtn))) (KeyDown escape_key) =
     \<lparr>host = \<lparr>src = Some ''a.jpg'', title = None, disableZoom = None,
              zoomSrc = Some ''a_hi.jpg'', isZoomMode = Some False, fullScreen = Some True\<rparr>,
      page = browser, timers = [], settled = 0,
      trace = [Opened (Some ''a.jpg''), Platform RequestFullscreen,
               Fullscreen (Some ''a.jpg'') True, Closed (Some ''a.jpg'') ''ESC'']\<rparr>"
  by (simp add: toggled_eq step_KeyDown keydown_def is_escape_escape_key dispatchEvent_def
      set_isZoomMode_def truthy_def)

lemma declined_eq:
  "step (step zoomed_windowed (Click (click_on FullScreenBtn))) (RequestSettled False) =
     \<lparr>host = \<lparr>src = Some ''a.jpg'', title = None, disableZoom = None,
              zoomSrc = Some ''a_hi.jpg'', isZoomMode = Some True, fullScreen = Some True\<rparr>,
      page = browser, timers = [], settled = 1,
      trace = [Opened (Some ''a.jpg''), Platform RequestFullscreen,
               Fullscreen (Some ''a.jpg'') True, UnhandledRejection TypeError]\<rparr>"
  by (simp add: toggled_eq step_RequestSettled request_settled_def promises_def)

section \<open>The claims\<close>

text \<open>
  Claim C1 says that Escape is suppressed while the view is zoomed and the Fullscreen flag is
  set. \<^verbatim>\<open>__keydown\<close> does not read \<^verbatim>\<open>_fullScreen\<close>. In the example run (click on the image,
  click on the fullscreen toggle) an Escape key press closes the view and dispatches
  \<^verbatim>\<open>dw-image-closed\<close> with \<^verbatim>\<open>ux: 'ESC'\<close>, both when the platform has not answered the request
  and when it has confirmed it.
\<close>

theorem keydown_escape_fullscreen_cex:
  "view_state (host (step zoomed_windowed (Click (click_on FullScreenBtn)))) =
     Zoomed Fullscreen_mode \<and>
   view_state (host (step (step zoomed_windowed (Click (click_on FullScreenBtn)))
     (KeyDown escape_key))) = Closed_view \<and>
   trace (step (step zoomed_windowed (Click (click_on FullScreenBtn))) (KeyDown escape_key)) =
     [Opened (Some ''a.jpg''), Platform RequestFullscreen, Fullscreen (Some ''a.jpg'') True,
      Closed (Some ''a.jpg'') ''ESC''] \<and>
   view_state (host zoomed_fullscreen) = Zoomed Fullscreen_mode \<and>
   view_state (host (step zoomed_fullscreen (KeyDown escape_key))) = Closed_view \<and>
   trace (step zoomed_fullscreen (KeyDown escape_key)) =
     trace zoomed_fullscreen @ [Closed (Some ''a.jpg'') ''ESC'']"
proof -
  have a: "view_state (host (step zoomed_windowed (Click (click_on FullScreenBtn)))) =
     Zoomed Fullscreen_mode"
    by (simp add: toggled_eq view_state_simps)
  have b: "view_state (host (step (step zoomed_windowed (Click (click_on FullScreenBtn)))
     (KeyDown escape_key))) = Closed_view"
    by (simp add: escaped_eq view_state_simps)
  have c: "trace (step (step zoomed_windowed (Click (click_on FullScreenBtn)))
     (KeyDown escape_key)) =
     [Opened (Some ''a.jpg''), Platform RequestFullscreen, Fullscreen (Some ''a.jpg'') True,
      Closed (Some ''a.jpg'') ''ESC'']"
    by (simp add: escaped_eq)
  have d: "view_state (host zoomed_fullscreen) = Zoomed Fullscreen_mode \<and>
   view_state (host (step zoomed_fullscreen (KeyDown escape_key))) = Closed_view \<and>
   trace (step zoomed_fullscreen (KeyDown escape_key)) =
     trace zoomed_fullscreen @ [Closed (Some ''a.jpg'') ''ESC'']"
    by (simp add: zoomed_fullscreen_eq step_KeyDown keydown_def is_escape_escape_key
        dispatchEvent_def set_isZoomMode_def view_state_simps truthy_def)
  from a b c d show ?thesis by blast
qed

text \<open>
  C1, as the code has it: a key press that \<^verbatim>\<open>__keydown\<close> takes for Escape, while the view is
  zoomed with the Fullscreen flag set, is handled as in the windowed case. The view state
  becomes Closed and exactly one closed notification with reason \<^verbatim>\<open>ESC\<close> is added to the
  trace. Only \<^verbatim>\<open>__onClick\<close> is guarded by the Fullscreen flag.
\<close>

theorem keydown_escape_fullscreen:
  assumes "is_escape e" "view_state (host w) = Zoomed Fullscreen_mode"
  shows "view_state (host (step w (KeyDown e))) = Closed_view \<and>
         trace (step w (KeyDown e)) = trace w @ [Closed (src (host w)) ''ESC'']"
  using assms
  by (simp add: step_KeyDown keydown_def dispatchEvent_def set_isZoomMode_def
      view_state_simps truthy_def)

text \<open>
  C1, at the example: the Escape key in the zoomed, fullscreen world of the example run.
\<close>

theorem keydown_escape_fullscreen_witness:
  "is_escape escape_key \<and> view_state (host zoomed_fullscreen) = Zoomed Fullscreen_mode \<and>
   view_state (host (step zoomed_fullscreen (KeyDown escape_key))) = Closed_view \<and>
   trace (step zoomed_fullscreen (KeyDown escape_key)) =
     trace zoomed_fullscreen @ [Closed (src (host zoomed_fullscreen)) ''ESC'']"
proof -
  have v: "view_state (host zoomed_fullscreen) = Zoomed Fullscreen_mode"
    by (simp add: zoomed_fullscreen_eq view_state_simps)
  from keydown_escape_fullscreen [OF is_escape_escape_key v] is_escape_escape_key v
  show ?thesis by blast
qed

text \<open>
  Claim C2 states an invariant: the Fullscreen flag becomes true only while the view is
  Zoomed, and every transition to Closed leaves the flag cleared. Both halves fail. In the
  initial, closed world a platform \<^verbatim>\<open>fullscreenchange\<close> notification with a fullscreen element
  present (any element of the page) sets the flag, since \<^verbatim>\<open>__fullScreenChange\<close> does not read
  \<^verbatim>\<open>_isZoomMode\<close>; and Escape in the zoomed, fullscreen world closes the view with the flag
  still set.
\<close>

theorem fullscreen_flag_invariant_cex:
  "view_state (host (init example)) = Closed_view \<and>
   \<not> truthy (fullScreen (host (init example))) \<and>
   view_state (host (step (init example) (FullscreenChange True))) = Closed_view \<and>
   truthy (fullScreen (host (step (init example) (FullscreenChange True)))) \<and>
   view_state (host (step zoomed_fullscreen (KeyDown escape_key))) = Closed_view \<and>
   truthy (fullScreen (host (step zoomed_fullscreen (KeyDown escape_key))))"
  by (simp add: init_example_eq zoomed_fullscreen_eq step_platform step_KeyDown keydown_def
      is_escape_escape_key dispatchEvent_def set_isZoomMode_def view_state_simps truthy_def)

text \<open>
  C2, as the code has it. (1) An event that the component can receive and that turns the
  Fullscreen flag from not set to set is either the platform's notification that an element
  is fullscreen, in whatever view state, or a click on the fullscreen toggle, which is
  rendered only while the view is Zoomed(Windowed). (2) A click that takes the view from
  Zoomed to Closed (the outside click) leaves the flag not set. (3) A click on the close
  control leaves the flag not set at the click. Nothing is said about the flag after Escape
  or after the deferred close.
\<close>

theorem fullscreen_flag_changes:
  "(enabled w ev \<and> \<not> truthy (fullScreen (host w)) \<and> truthy (fullScreen (host (step w ev)))
      \<longrightarrow> ev = FullscreenChange True \<or>
          (toggle_click ev \<and> view_state (host w) = Zoomed Windowed)) \<and>
   (view_state (host w) \<noteq> Closed_view \<and> view_state (host (step w (Click c))) = Closed_view
      \<longrightarrow> \<not> truthy (fullScreen (host (step w (Click c))))) \<and>
   (node c = Some CloseBtn \<longrightarrow> \<not> truthy (fullScreen (host (step w (Click c)))))"
proof (intro conjI impI)
  assume a: "enabled w ev \<and> \<not> truthy (fullScreen (host w)) \<and>
             truthy (fullScreen (host (step w ev)))"
  show "ev = FullscreenChange True \<or> (toggle_click ev \<and> view_state (host w) = Zoomed Windowed)"
  proof (cases ev)
    case (Click c')
    show ?thesis
    proof (cases "node c'")
      case None
      with a Click show ?thesis by (simp add: fullScreen_step)
    next
      case (Some n)
      with a Click show ?thesis
        by (cases n)
          (simp_all add: fullScreen_step toggle_click_def enabled_def rendered_def
            zoomImageTemplate_def view_state_simps truthy_def split: if_splits)
    qed
  next
    case (KeyDown e)
    with a show ?thesis by (simp add: fullScreen_step)
  next
    case (FullscreenChange b)
    with a show ?thesis by (simp add: fullScreen_step truthy_def)
  next
    case Timeout
    with a show ?thesis by (simp add: fullScreen_step)
  next
    case (RequestSettled ok)
    with a show ?thesis by (simp add: fullScreen_step)
  qed
next
  assume b: "view_state (host w) \<noteq> Closed_view \<and>
             view_state (host (step w (Click c))) = Closed_view"
  show "\<not> truthy (fullScreen (host (step w (Click c))))"
  proof (cases "node c")
    case None
    with b show ?thesis
      by (simp add: step_Click_outside onClick_def dispatchEvent_def set_isZoomMode_def
          view_state_simps truthy_def split: if_splits)
  next
    case (Some n)
    from isZoomMode_step_Click_node [OF Some, of w] b show ?thesis
      by (simp add: view_state_simps truthy_def)
  qed
next
  assume "node c = Some CloseBtn"
  then show "\<not> truthy (fullScreen (host (step w (Click c))))"
    by (simp add: fullScreen_step truthy_def)
qed

text \<open>
  C2, at the example: the toggle click and the outside click in the zoomed, windowed world,
  and the close click in the zoomed, fullscreen world.
\<close>

theorem fullscreen_flag_changes_witness:
  "enabled zoomed_windowed (Click (click_on FullScreenBtn)) \<and>
   \<not> truthy (fullScreen (host zoomed_windowed)) \<and>
   truthy (fullScreen (host (step zoomed_windowed (Click (click_on FullScreenBtn))))) \<and>
   toggle_click (Click (click_on FullScreenBtn)) \<and>
   view_state (host zoomed_windowed) = Zoomed Windowed \<and>
   view_state (host zoomed_windowed) \<noteq> Closed_view \<and>
   view_state (host (step zoomed_windowed (Click overlay_click))) = Closed_view \<and>
   \<not> truthy (fullScreen (host (step zoomed_windowed (Click overlay_click)))) \<and>
   node (click_on CloseBtn) = Some CloseBtn \<and>
   \<not> truthy (fullScreen (host (step zoomed_fullscreen (Click (click_on CloseBtn)))))"
proof -
  have h1: "enabled zoomed_windowed (Click (click_on FullScreenBtn))"
    by (simp add: enabled_def node_click_on rendered_def zoomImageTemplate_def
        zoomed_windowed_eq truthy_def)
  have h2: "\<not> truthy (fullScreen (host zoomed_windowed))"
    by (simp add: zoomed_windowed_eq truthy_def)
  have h3: "truthy (fullScreen (host (step zoomed_windowed (Click (click_on FullScreenBtn)))))"
    by (simp add: toggled_eq truthy_def)
  have h4: "Click (click_on FullScreenBtn) \<noteq> FullscreenChange True"
    by simp
  have h5: "view_state (host zoomed_windowed) \<noteq> Closed_view"
    by (simp add: zoomed_windowed_eq view_state_simps)
  have h6: "view_state (host (step zoomed_windowed (Click overlay_click))) = Closed_view"
    by (simp add: step_Click_outside overlay_click_outside onClick_def forEach_paths_eq
        dispatchEvent_def set_isZoomMode_def zoomed_windowed_eq view_state_simps truthy_def)
  note inst =
    fullscreen_flag_changes [of zoomed_windowed "Click (click_on FullScreenBtn)" overlay_click]
  from inst h1 h2 h3 h4
  have c1: "toggle_click (Click (click_on FullScreenBtn)) \<and>
            view_state (host zoomed_windowed) = Zoomed Windowed"
    by blast
  from inst h5 h6
  have c2: "\<not> truthy (fullScreen (host (step zoomed_windowed (Click overlay_click))))"
    by blast
  from fullscreen_flag_changes
      [of zoomed_fullscreen "Click (click_on CloseBtn)" "click_on CloseBtn"]
    node_click_on [of CloseBtn]
  have c3: "\<not> truthy (fullScreen (host (step zoomed_fullscreen (Click (click_on CloseBtn)))))"
    by blast
  from h1 h2 h3 h5 h6 c1 c2 c3 node_click_on [of CloseBtn] show ?thesis by blast
qed

text \<open>
  Claim C3 says that the fullscreen notification with \<^verbatim>\<open>enabled: true\<close> is emitted only after
  the platform has confirmed, never upon the local request. The run below holds no platform
  notification at all, and the notification is already in the trace, right behind the
  request: the click handler assigns \<^verbatim>\<open>_fullScreen\<close> itself and \<^verbatim>\<open>updated\<close> dispatches the
  event in the same update as the request.
\<close>

theorem fullscreen_notification_cex:
  "trace (run (init example) [Click (click_on InlineImg), Click (click_on FullScreenBtn)]) =
     [Opened (Some ''a.jpg''), Platform RequestFullscreen, Fullscreen (Some ''a.jpg'') True]"
  using toggled_eq by (simp add: zoomed_windowed_def)

text \<open>
  C3, as the code has it: for a click on the fullscreen toggle while the view is
  Zoomed(Windowed) and the overlay is rendered, with no element fullscreen and at least one of
  the three request primitives present, the click itself sets the Fullscreen flag. The update
  that follows calls the first primitive present (\<^verbatim>\<open>requestFullscreen\<close>, else
  \<^verbatim>\<open>webkitRequestFullscreen\<close>, else \<^verbatim>\<open>msRequestFullscreen\<close>) and directly after it emits the
  fullscreen notification with \<^verbatim>\<open>enabled: true\<close>, before any platform confirmation. When the
  platform's confirmation arrives afterwards, the flag stays set and nothing more is emitted.
\<close>

theorem toggle_click_requests_and_notifies:
  assumes "view_state (host w) = Zoomed Windowed" "\<not> truthy (disableZoom (host w))"
    and "node c = Some FullScreenBtn"
    and "\<not> fullscreenElement (page w)"
    and "has_requestFullscreen (page w) \<or> has_webkitRequestFullscreen (page w) \<or>
         has_msRequestFullscreen (page w)"
  shows "fullScreen (host (step w (Click c))) = Some True \<and>
         trace (step w (Click c)) =
           trace w @
           [Platform (if has_requestFullscreen (page w) then RequestFullscreen
                      else if has_webkitRequestFullscreen (page w) then WebkitRequestFullscreen
                      else MsRequestFullscreen),
            Fullscreen (src (host w)) True] \<and>
         fullScreen (host (step (step w (Click c)) (FullscreenChange True))) = Some True \<and>
         trace (step (step w (Click c)) (FullscreenChange True)) = trace (step w (Click c))"
  using assms
  by (auto simp: step_toggle step_platform update_effects_enter view_state_simps)

text \<open>
  C3, at the example: the toggle click in the zoomed, windowed world, in a browser with the
  standard primitive and in one with the WebKit primitive only.
\<close>

theorem toggle_click_requests_and_notifies_witness:
  "view_state (host zoomed_windowed) = Zoomed Windowed \<and>
   \<not> truthy (disableZoom (host zoomed_windowed)) \<and>
   node (click_on FullScreenBtn) = Some FullScreenBtn \<and>
   \<not> fullscreenElement (page zoomed_windowed) \<and>
   has_requestFullscreen (page zoomed_windowed) \<and>
   fullScreen (host (step zoomed_windowed (Click (click_on FullScreenBtn)))) = Some True \<and>
   trace (step zoomed_windowed (Click (click_on FullScreenBtn))) =
     trace zoomed_windowed @
       [Platform RequestFullscreen, Fullscreen (src (host zoomed_windowed)) True] \<and>
   fullScreen (host (step (step zoomed_windowed (Click (click_on FullScreenBtn)))
     (FullscreenChange True))) = Some True \<and>
   trace (step (step zoomed_windowed (Click (click_on FullScreenBtn))) (FullscreenChange True)) =
     trace (step zoomed_windowed (Click (click_on FullScreenBtn))) \<and>
   view_state (host zoomed_windowed_webkit) = Zoomed Windowed \<and>
   \<not> truthy (disableZoom (host zoomed_windowed_webkit)) \<and>
   \<not> fullscreenElement (page zoomed_windowed_webkit) \<and>
   \<not> has_requestFullscreen (page zoomed_windowed_webkit) \<and>
   has_webkitRequestFullscreen (page zoomed_windowed_webkit) \<and>
   fullScreen (host (step zoomed_windowed_webkit (Click (click_on FullScreenBtn)))) =
     Some True \<and>
   trace (step zoomed_windowed_webkit (Click (click_on FullScreenBtn))) =
     trace zoomed_windowed_webkit @
       [Platform WebkitRequestFullscreen, Fullscreen (src (host zoomed_windowed_webkit)) True]"
proof -
  have h1: "view_state (host zoomed_windowed) = Zoomed Windowed"
    by (simp add: zoomed_windowed_eq view_state_simps)
  have h2: "\<not> truthy (disableZoom (host zoomed_windowed))"
    by (simp add: zoomed_windowed_eq truthy_def)
  have h4: "\<not> fullscreenElement (page zoomed_windowed)"
    by (simp add: zoomed_windowed_eq browser_def)
  have h5: "has_requestFullscreen (page zoomed_windowed)"
    by (simp add: zoomed_windowed_eq browser_def)
  have k1: "view_state (host zoomed_windowed_webkit) = Zoomed Windowed"
    by (simp add: zoomed_windowed_webkit_def zoomed_windowed_eq view_state_simps)
  have k2: "\<not> truthy (disableZoom (host zoomed_windowed_webkit))"
    by (simp add: zoomed_windowed_webkit_def zoomed_windowed_eq truthy_def)
  have k4: "\<not> fullscreenElement (page zoomed_windowed_webkit)"
    by (simp add: zoomed_windowed_webkit_def webkit_only_def)
  have k5: "\<not> has_requestFullscreen (page zoomed_windowed_webkit)"
    by (simp add: zoomed_windowed_webkit_def webkit_only_def)
  have k6: "has_webkitRequestFullscreen (page zoomed_windowed_webkit)"
    by (simp add: zoomed_windowed_webkit_def webkit_only_def)
  from h5 have d1: "has_requestFullscreen (page zoomed_windowed) \<or>
      has_webkitRequestFullscreen (page zoomed_windowed) \<or>
      has_msRequestFullscreen (page zoomed_windowed)"
    by blast
  from k6 have d2: "has_requestFullscreen (page zoomed_windowed_webkit) \<or>
      has_webkitRequestFullscreen (page zoomed_windowed_webkit) \<or>
      has_msRequestFullscreen (page zoomed_windowed_webkit)"
    by blast
  from toggle_click_requests_and_notifies [OF h1 h2 node_click_on h4 d1] h5
  have c1: "fullScreen (host (step zoomed_windowed (Click (click_on FullScreenBtn)))) =
      Some True \<and>
    trace (step zoomed_windowed (Click (click_on FullScreenBtn))) =
      trace zoomed_windowed @
        [Platform RequestFullscreen, Fullscreen (src (host zoomed_windowed)) True] \<and>
    fullScreen (host (step (step zoomed_windowed (Click (click_on FullScreenBtn)))
      (FullscreenChange True))) = Some True \<and>
    trace (step (step zoomed_windowed (Click (click_on FullScreenBtn)))
      (FullscreenChange True)) =
      trace (step zoomed_windowed (Click (click_on FullScreenBtn)))"
    by simp
  from toggle_click_requests_and_notifies [OF k1 k2 node_click_on k4 d2] k5 k6
  have c2: "fullScreen (host (step zoomed_windowed_webkit (Click (click_on FullScreenBtn)))) =
      Some True \<and>
    trace (step zoomed_windowed_webkit (Click (click_on FullScreenBtn))) =
      trace zoomed_windowed_webkit @
        [Platform WebkitRequestFullscreen,
         Fullscreen (src (host zoomed_windowed_webkit)) True]"
    by simp
  from h1 h2 h4 h5 k1 k2 k4 k5 k6 c1 c2 node_click_on [of FullScreenBtn]
  show ?thesis by blast
qed

text \<open>
  Claim C4 says that when the platform declines the request (no \<^verbatim>\<open>fullscreenchange\<close> ever
  arrives) the state remains consistent with Zoomed(Windowed) and no error is surfaced. After
  the toggle click alone, with no platform notification, the view state is
  Zoomed(Fullscreen): the click has set the flag. And when the platform rejects the promise
  that \<^verbatim>\<open>requestFullscreen()\<close> returned, the rejection is unhandled, since the component
  dropped the promise; the view state is still Zoomed(Fullscreen).
\<close>

theorem declined_request_cex:
  "view_state (host zoomed_windowed) = Zoomed Windowed \<and>
   view_state (host (run zoomed_windowed [Click (click_on FullScreenBtn)])) =
     Zoomed Fullscreen_mode \<and>
   view_state (host (run zoomed_windowed
     [Click (click_on FullScreenBtn), RequestSettled False])) = Zoomed Fullscreen_mode \<and>
   trace (run zoomed_windowed [Click (click_on FullScreenBtn), RequestSettled False]) =
     [Opened (Some ''a.jpg''), Platform RequestFullscreen, Fullscreen (Some ''a.jpg'') True,
      UnhandledRejection TypeError]"
proof -
  have a: "view_state (host zoomed_windowed) = Zoomed Windowed"
    by (simp add: zoomed_windowed_eq view_state_simps)
  have b: "view_state (host (run zoomed_windowed [Click (click_on FullScreenBtn)])) =
     Zoomed Fullscreen_mode"
    by (simp add: toggled_eq view_state_simps)
  have c: "view_state (host (run zoomed_windowed
     [Click (click_on FullScreenBtn), RequestSettled False])) = Zoomed Fullscreen_mode"
    by (simp add: declined_eq view_state_simps)
  have d: "trace (run zoomed_windowed [Click (click_on FullScreenBtn), RequestSettled False]) =
     [Opened (Some ''a.jpg''), Platform RequestFullscreen, Fullscreen (Some ''a.jpg'') True,
      UnhandledRejection TypeError]"
    by (simp add: declined_eq)
  from a b c d show ?thesis by blast
qed

text \<open>
  C4, as the code has it: after a click on the fullscreen toggle in Zoomed(Windowed), with
  the overlay rendered, no element fullscreen and no earlier request pending, the view state
  is Zoomed(Fullscreen) and the fullscreen notification with \<^verbatim>\<open>enabled: true\<close> has been
  emitted, whatever the platform answers. When the platform declines, the component does
  nothing: the decline changes none of its properties, and over any further events that hold
  neither a platform event nor another toggle click no fullscreen request is issued (no
  retry). The component has attached no reaction to the promise of \<^verbatim>\<open>requestFullscreen()\<close>:
  where the standard primitive was called, the rejection is reported as unhandled, once;
  with the prefixed primitives, which return no promise, nothing is reported. No other error
  arises.
\<close>

theorem declined_request_no_retry:
  assumes "view_state (host w) = Zoomed Windowed" "\<not> truthy (disableZoom (host w))"
    and "node c = Some FullScreenBtn" "\<not> fullscreenElement (page w)"
    and "settled w = promises w"
    and "\<forall>ev\<in>set evs. \<not> toggle_click ev \<and> \<not> platform_event ev"
  shows "view_state (host (step w (Click c))) = Zoomed Fullscreen_mode \<and>
         last (trace (step w (Click c))) = Fullscreen (src (host w)) True \<and>
         host (step (step w (Click c)) (RequestSettled False)) = host (step w (Click c)) \<and>
         page (step (step w (Click c)) (RequestSettled False)) = page (step w (Click c)) \<and>
         timers (step (step w (Click c)) (RequestSettled False)) = timers (step w (Click c)) \<and>
         trace (step (step w (Click c)) (RequestSettled False)) =
           trace (step w (Click c)) @
           (if has_requestFullscreen (page w) then [UnhandledRejection TypeError] else []) \<and>
         filter is_request (trace (run (step (step w (Click c)) (RequestSettled False)) evs)) =
           filter is_request (trace (step w (Click c))) \<and>
         filter is_error (trace (run (step (step w (Click c)) (RequestSettled False)) evs)) =
           filter is_error (trace w) @
           (if has_requestFullscreen (page w) then [UnhandledRejection TypeError] else [])"
proof -
  let ?w1 = "step w (Click c)"
  let ?w2 = "step ?w1 (RequestSettled False)"
  let ?r = "if has_requestFullscreen (page w) then [UnhandledRejection TypeError] else []"
  from assms(1) have z: "isZoomMode (host w) = Some True" and f: "fullScreen (host w) \<noteq> Some True"
    by (simp_all add: view_state_simps)
  have w1: "?w1 = w\<lparr>host := (host w)\<lparr>fullScreen := Some True\<rparr>,
       trace := trace w @ update_effects True ((host w)\<lparr>fullScreen := Some True\<rparr>) (page w)\<rparr>"
    using assms(3) f by (simp add: step_toggle)
  have v: "view_state (host ?w1) = Zoomed Fullscreen_mode"
    using z by (simp add: w1 view_state_simps)
  have l: "last (trace ?w1) = Fullscreen (src (host w)) True"
    using z assms(2,4) by (simp add: w1 update_effects_enter)
  have e1: "filter is_error (trace ?w1) = filter is_error (trace w)"
    using z assms(2,4) by (simp add: w1 update_effects_enter is_error_def)
  have p1: "promises ?w1 = promises w + (if has_requestFullscreen (page w) then 1 else 0)"
    using z assms(2,4) by (simp add: w1 promises_def update_effects_enter)
  have s1: "settled ?w1 = promises w"
    using assms(5) by (simp add: w1)
  have w2: "?w2 = (if has_requestFullscreen (page w)
              then ?w1\<lparr>settled := Suc (settled ?w1),
                        trace := trace ?w1 @ [UnhandledRejection TypeError]\<rparr>
              else ?w1)"
    using p1 s1 by (simp add: step_RequestSettled request_settled_def)
  have same: "host ?w2 = host ?w1" "page ?w2 = page ?w1" "timers ?w2 = timers ?w1"
    by (simp_all add: w2)
  have t2: "trace ?w2 = trace ?w1 @ ?r"
    by (simp add: w2)
  have p1': "\<not> fullscreenElement (page ?w1)"
    using assms(4) by (simp add: w1)
  have p: "\<not> fullscreenElement (page ?w2)"
    using p1' same(2) by simp
  have r2: "filter is_request (trace ?w2) = filter is_request (trace ?w1)"
    by (simp add: t2 is_request_def)
  have e2: "filter is_error (trace ?w2) = filter is_error (trace w) @ ?r"
    using e1 by (simp add: t2 is_error_def)
  from run_quiet [OF assms(6) p] r2 e2
  have q: "filter is_request (trace (run ?w2 evs)) = filter is_request (trace ?w1)"
    "filter is_error (trace (run ?w2 evs)) = filter is_error (trace w) @ ?r"
    by simp_all
  from v l same t2 q show ?thesis by simp
qed

text \<open>
  C4, at the example: the toggle click in the zoomed, windowed world, declined by the
  platform and followed by a click on the zoomed image and an Escape key press.
\<close>

theorem declined_request_no_retry_witness:
  "view_state (host zoomed_windowed) = Zoomed Windowed \<and>
   \<not> truthy (disableZoom (host zoomed_windowed)) \<and>
   node (click_on FullScreenBtn) = Some FullScreenBtn \<and>
   \<not> fullscreenElement (page zoomed_windowed) \<and>
   settled zoomed_windowed = promises zoomed_windowed \<and>
   has_requestFullscreen (page zoomed_windowed) \<and>
   \<not> toggle_click (Click (click_on ZoomImg)) \<and>
   \<not> platform_event (Click (click_on ZoomImg)) \<and>
   \<not> toggle_click (KeyDown escape_key) \<and>
   \<not> platform_event (KeyDown escape_key) \<and>
   view_state (host (step zoomed_windowed (Click (click_on FullScreenBtn)))) =
     Zoomed Fullscreen_mode \<and>
   last (trace (step zoomed_windowed (Click (click_on FullScreenBtn)))) =
     Fullscreen (src (host zoomed_windowed)) True \<and>
   host (step (step zoomed_windowed (Click (click_on FullScreenBtn))) (RequestSettled False)) =
     host (step zoomed_windowed (Click (click_on FullScreenBtn))) \<and>
   trace (step (step zoomed_windowed (Click (click_on FullScreenBtn))) (RequestSettled False)) =
     trace (step zoomed_windowed (Click (click_on FullScreenBtn))) @
       [UnhandledRejection TypeError] \<and>
   filter is_request (trace (run
       (step (step zoomed_windowed (Click (click_on FullScreenBtn))) (RequestSettled False))
       [Click (click_on ZoomImg), KeyDown escape_key])) =
     filter is_request (trace (step zoomed_windowed (Click (click_on FullScreenBtn)))) \<and>
   filter is_error (trace (run
       (step (step zoomed_windowed (Click (click_on FullScreenBtn))) (RequestSettled False))
       [Click (click_on ZoomImg), KeyDown escape_key])) =
     filter is_error (trace zoomed_windowed) @ [UnhandledRejection TypeError]"
proof -
  have h1: "view_state (host zoomed_windowed) = Zoomed Windowed"
    by (simp add: zoomed_windowed_eq view_state_simps)
  have h2: "\<not> truthy (disableZoom (host zoomed_windowed))"
    by (simp add: zoomed_windowed_eq truthy_def)
  have h4: "\<not> fullscreenElement (page zoomed_windowed)"
    by (simp add: zoomed_windowed_eq browser_def)
  have h5: "settled zoomed_windowed = promises zoomed_windowed"
    by (simp add: zoomed_windowed_eq promises_def)
  have h6: "has_requestFullscreen (page zoomed_windowed)"
    by (simp add: zoomed_windowed_eq browser_def)
  have q: "\<not> toggle_click (Click (click_on ZoomImg))"
    "\<not> platform_event (Click (click_on ZoomImg))"
    "\<not> toggle_click (KeyDown escape_key)"
    "\<not> platform_event (KeyDown escape_key)"
    by (simp_all add: toggle_click_def platform_event_def node_click_on)
  then have h7: "\<forall>ev\<in>set [Click (click_on ZoomImg), KeyDown escape_key].
      \<not> toggle_click ev \<and> \<not> platform_event ev"
    by simp
  from declined_request_no_retry [OF h1 h2 node_click_on h4 h5 h7] h6
  have c: "view_state (host (step zoomed_windowed (Click (click_on FullScreenBtn)))) =
     Zoomed Fullscreen_mode \<and>
   last (trace (step zoomed_windowed (Click (click_on FullScreenBtn)))) =
     Fullscreen (src (host zoomed_windowed)) True \<and>
   host (step (step zoomed_windowed (Click (click_on FullScreenBtn))) (RequestSettled False)) =
     host (step zoomed_windowed (Click (click_on FullScreenBtn))) \<and>
   trace (step (step zoomed_windowed (Click (click_on FullScreenBtn))) (RequestSettled False)) =
     trace (step zoomed_windowed (Click (click_on FullScreenBtn))) @
       [UnhandledRejection TypeError] \<and>
   filter is_request (trace (run
       (step (step zoomed_windowed (Click (click_on FullScreenBtn))) (RequestSettled False))
       [Click (click_on ZoomImg), KeyDown escape_key])) =
     filter is_request (trace (step zoomed_windowed (Click (click_on FullScreenBtn)))) \<and>
   filter is_error (trace (run
       (step (step zoomed_windowed (Click (click_on FullScreenBtn))) (RequestSettled False))
       [Click (click_on ZoomImg), KeyDown escape_key])) =
     filter is_error (trace zoomed_windowed) @ [UnhandledRejection TypeError]"
    by simp
  from h1 h2 h4 h5 h6 q c node_click_on [of FullScreenBtn] show ?thesis by blast
qed

text \<open>
  Claim C5: a key press that \<^verbatim>\<open>__keydown\<close> takes for Escape, while the view is
  Zoomed(Windowed), sets the view state to Closed and adds exactly one closed notification to
  the trace, with the reason for Escape; while the view is Closed it changes nothing and
  emits nothing. The code's value for the reason that the specification calls ESCAPE is the
  string \<^verbatim>\<open>'ESC'\<close>, in the detail field \<^verbatim>\<open>ux\<close>. Any step at all adds at most one closed
  notification, and its reason is \<^verbatim>\<open>'ESC'\<close>, \<^verbatim>\<open>'OVERLAY_CLICK'\<close> or \<^verbatim>\<open>'CLOSE_BUTTON'\<close>.
\<close>

theorem keydown_escape_windowed:
  assumes "is_escape e"
  shows "(view_state (host w) = Zoomed Windowed \<longrightarrow>
            view_state (host (step w (KeyDown e))) = Closed_view \<and>
            trace (step w (KeyDown e)) = trace w @ [Closed (src (host w)) ''ESC'']) \<and>
         (view_state (host w) = Closed_view \<longrightarrow> step w (KeyDown e) = w) \<and>
         filter is_closed (trace (step w ev)) \<in>
           {filter is_closed (trace w),
            filter is_closed (trace w) @ [Closed (src (host w)) ''ESC''],
            filter is_closed (trace w) @ [Closed (src (host w)) ''OVERLAY_CLICK''],
            filter is_closed (trace w) @ [Closed (src (host w)) ''CLOSE_BUTTON'']}"
proof -
  from assms have "view_state (host w) = Zoomed Windowed \<longrightarrow>
            view_state (host (step w (KeyDown e))) = Closed_view \<and>
            trace (step w (KeyDown e)) = trace w @ [Closed (src (host w)) ''ESC'']"
    by (simp add: step_KeyDown keydown_def dispatchEvent_def set_isZoomMode_def
        view_state_simps truthy_def)
  moreover have "view_state (host w) = Closed_view \<longrightarrow> step w (KeyDown e) = w"
    by (simp add: step_KeyDown keydown_def view_state_simps truthy_def)
  moreover from closed_step [of w ev]
  have "filter is_closed (trace (step w ev)) \<in>
           {filter is_closed (trace w),
            filter is_closed (trace w) @ [Closed (src (host w)) ''ESC''],
            filter is_closed (trace w) @ [Closed (src (host w)) ''OVERLAY_CLICK''],
            filter is_closed (trace w) @ [Closed (src (host w)) ''CLOSE_BUTTON'']}"
    by blast
  ultimately show ?thesis by blast
qed

text \<open>
  C5, at the example: the Escape key in the zoomed, windowed world and in the initial world.
\<close>

theorem keydown_escape_windowed_witness:
  "is_escape escape_key \<and>
   view_state (host zoomed_windowed) = Zoomed Windowed \<and>
   view_state (host (step zoomed_windowed (KeyDown escape_key))) = Closed_view \<and>
   trace (step zoomed_windowed (KeyDown escape_key)) =
     trace zoomed_windowed @ [Closed (src (host zoomed_windowed)) ''ESC''] \<and>
   view_state (host (init example)) = Closed_view \<and>
   step (init example) (KeyDown escape_key) = init example"
proof -
  have v1: "view_state (host zoomed_windowed) = Zoomed Windowed"
    by (simp add: zoomed_windowed_eq view_state_simps)
  have v2: "view_state (host (init example)) = Closed_view"
    by (simp add: init_example_eq view_state_simps)
  from keydown_escape_windowed [OF is_escape_escape_key, of zoomed_windowed] v1
  have c1: "view_state (host (step zoomed_windowed (KeyDown escape_key))) = Closed_view \<and>
            trace (step zoomed_windowed (KeyDown escape_key)) =
              trace zoomed_windowed @ [Closed (src (host zoomed_windowed)) ''ESC'']"
    by blast
  from keydown_escape_windowed [OF is_escape_escape_key, of "init example"] v2
  have c2: "step (init example) (KeyDown escape_key) = init example"
    by blast
  from is_escape_escape_key v1 v2 c1 c2 show ?thesis by blast
qed

text \<open>
  Claim C6: a click on the close control while the view is Zoomed(Fullscreen) first clears
  the Fullscreen flag and schedules the deferred callback with a delay of 100 ms; the view is
  still zoomed and no closed notification has been emitted by the click. When the deferred
  callback runs, the view state becomes Closed and exactly one closed notification, with
  reason \<^verbatim>\<open>CLOSE_BUTTON\<close>, is added.
\<close>

theorem close_button_fullscreen:
  assumes "node c = Some CloseBtn" "view_state (host w) = Zoomed Fullscreen_mode"
  shows "fullScreen (host (step w (Click c))) = Some False \<and>
         view_state (host (step w (Click c))) = Zoomed Windowed \<and>
         timers (step w (Click c)) = timers w @ [100] \<and>
         filter is_closed (trace (step w (Click c))) = filter is_closed (trace w) \<and>
         view_state (host (step (step w (Click c)) Timeout)) = Closed_view \<and>
         filter is_closed (trace (step (step w (Click c)) Timeout)) =
           filter is_closed (trace w) @ [Closed (src (host w)) ''CLOSE_BUTTON'']"
proof -
  let ?w1 = "step w (Click c)"
  from assms(2) have z: "isZoomMode (host w) = Some True" and f: "fullScreen (host w) = Some True"
    by (simp_all add: view_state_simps)
  have w1: "?w1 = w\<lparr>host := (host w)\<lparr>fullScreen := Some False\<rparr>,
          timers := timers w @ [100],
          trace := trace w @ update_effects True ((host w)\<lparr>fullScreen := Some False\<rparr>) (page w)\<rparr>"
    using assms(1) f by (simp add: step_close truthy_def)
  have quiet: "filter is_closed (update_effects True ((host w)\<lparr>fullScreen := Some False\<rparr>) (page w)) = []"
    using z by (simp add: update_effects_leave is_closed_def)
  have t: "timers ?w1 = timers w @ [100]"
    by (simp add: w1)
  have ne: "timers ?w1 \<noteq> []"
    using t by simp
  have w2: "step ?w1 Timeout = closeZoomImage_timeout (?w1\<lparr>timers := tl (timers ?w1)\<rparr>)"
    by (rule step_Timeout_pending [OF ne])
  have a: "fullScreen (host ?w1) = Some False" "view_state (host ?w1) = Zoomed Windowed"
    using z by (simp_all add: w1 view_state_simps)
  have b: "filter is_closed (trace ?w1) = filter is_closed (trace w)"
    using quiet by (simp add: w1)
  have s: "src (host ?w1) = src (host w)"
    by (simp add: w1)
  have c: "view_state (host (step ?w1 Timeout)) = Closed_view"
    by (simp add: w2 closeZoomImage_timeout_def dispatchEvent_def set_isZoomMode_def
        view_state_simps)
  have d: "filter is_closed (trace (step ?w1 Timeout)) =
           filter is_closed (trace w) @ [Closed (src (host w)) ''CLOSE_BUTTON'']"
    using b s
    by (simp add: w2 closeZoomImage_timeout_def dispatchEvent_def set_isZoomMode_def
        is_closed_def)
  from a t b c d show ?thesis by simp
qed

text \<open>
  C6, at the example: the close click in the zoomed, fullscreen world.
\<close>

theorem close_button_fullscreen_witness:
  "node (click_on CloseBtn) = Some CloseBtn \<and>
   view_state (host zoomed_fullscreen) = Zoomed Fullscreen_mode \<and>
   fullScreen (host (step zoomed_fullscreen (Click (click_on CloseBtn)))) = Some False \<and>
   view_state (host (step zoomed_fullscreen (Click (click_on CloseBtn)))) = Zoomed Windowed \<and>
   timers (step zoomed_fullscreen (Click (click_on CloseBtn))) =
     timers zoomed_fullscreen @ [100] \<and>
   filter is_closed (trace (step zoomed_fullscreen (Click (click_on CloseBtn)))) =
     filter is_closed (trace zoomed_fullscreen) \<and>
   view_state (host (step (step zoomed_fullscreen (Click (click_on CloseBtn))) Timeout)) =
     Closed_view \<and>
   filter is_closed (trace (step (step zoomed_fullscreen (Click (click_on CloseBtn))) Timeout)) =
     filter is_closed (trace zoomed_fullscreen) @
       [Closed (src (host zoomed_fullscreen)) ''CLOSE_BUTTON'']"
proof -
  have v: "view_state (host zoomed_fullscreen) = Zoomed Fullscreen_mode"
    by (simp add: zoomed_fullscreen_eq view_state_simps)
  from close_button_fullscreen [OF node_click_on v] v node_click_on [of CloseBtn] show ?thesis by blast
qed

text \<open>
  Claim C7: whenever the overlay is rendered, the source of the zoomed image is
  \<^verbatim>\<open>zoomSrc\<close> if that is present and not the empty string, and \<^verbatim>\<open>src\<close> otherwise.
\<close>

theorem zoom_image_src:
  assumes "zoomImageTemplate s = Some ov"
  shows "img_src ov =
           (case zoomSrc s of
              None \<Rightarrow> src s
            | Some z \<Rightarrow> if z \<noteq> [] then Some z else src s)"
  using assms
  by (auto simp: zoomImageTemplate_def js_or_def truthy_str_def split: if_splits option.splits)

text \<open>
  C7, at the example, for both branches: with \<^verbatim>\<open>zoomSrc\<close> set, and with \<^verbatim>\<open>zoomSrc\<close> the empty
  string.
\<close>

theorem zoom_image_src_witness:
  "zoomImageTemplate (host zoomed_windowed) =
     Some \<lparr>toggle = FullScreenBtn, close = CloseBtn, img_title = None,
           img_src = Some ''a_hi.jpg''\<rparr> \<and>
   img_src \<lparr>toggle = FullScreenBtn, close = CloseBtn, img_title = None,
            img_src = Some ''a_hi.jpg''\<rparr> =
     (case zoomSrc (host zoomed_windowed) of
        None \<Rightarrow> src (host zoomed_windowed)
      | Some z \<Rightarrow> if z \<noteq> [] then Some z else src (host zoomed_windowed)) \<and>
   zoomImageTemplate ((host zoomed_windowed)\<lparr>zoomSrc := Some []\<rparr>) =
     Some \<lparr>toggle = FullScreenBtn, close = CloseBtn, img_title = None,
           img_src = Some ''a.jpg''\<rparr> \<and>
   img_src \<lparr>toggle = FullScreenBtn, close = CloseBtn, img_title = None,
            img_src = Some ''a.jpg''\<rparr> =
     (case zoomSrc ((host zoomed_windowed)\<lparr>zoomSrc := Some []\<rparr>) of
        None \<Rightarrow> src ((host zoomed_windowed)\<lparr>zoomSrc := Some []\<rparr>)
      | Some z \<Rightarrow> if z \<noteq> [] then Some z
                  else src ((host zoomed_windowed)\<lparr>zoomSrc := Some []\<rparr>))"
proof -
  have t1: "zoomImageTemplate (host zoomed_windowed) =
     Some \<lparr>toggle = FullScreenBtn, close = CloseBtn, img_title = None,
           img_src = Some ''a_hi.jpg''\<rparr>"
    by (simp add: zoomed_windowed_eq zoomImageTemplate_def js_or_def truthy_str_def truthy_def)
  have t2: "zoomImageTemplate ((host zoomed_windowed)\<lparr>zoomSrc := Some []\<rparr>) =
     Some \<lparr>toggle = FullScreenBtn, close = CloseBtn, img_title = None,
           img_src = Some ''a.jpg''\<rparr>"
    by (simp add: zoomed_windowed_eq zoomImageTemplate_def js_or_def truthy_str_def truthy_def)
  from zoom_image_src [OF t1] zoom_image_src [OF t2] t1 t2 show ?thesis by blast
qed

text \<open>
  Claim C8 says that a click on the inline image with zoom enabled takes the view from
  Closed to Zoomed(Windowed). \<^verbatim>\<open>_setZoomMode\<close> does not touch \<^verbatim>\<open>_fullScreen\<close>: after a toggle
  click that the platform never confirms and an Escape key press, the view is Closed with
  the flag still set, and the next click on the image leads to Zoomed(Fullscreen).
\<close>

theorem image_click_cex:
  "view_state (host (run zoomed_windowed
      [Click (click_on FullScreenBtn), KeyDown escape_key])) = Closed_view \<and>
   \<not> truthy (disableZoom (host (run zoomed_windowed
      [Click (click_on FullScreenBtn), KeyDown escape_key]))) \<and>
   view_state (host (run zoomed_windowed
      [Click (click_on FullScreenBtn), KeyDown escape_key, Click (click_on InlineImg)])) =
     Zoomed Fullscreen_mode"
  by (simp add: escaped_eq step_Click_InlineImg node_click_on setZoomMode_def
      dispatchEvent_def set_isZoomMode_def view_state_simps truthy_def)

text \<open>
  C8, as the code has it: a click on the inline image while \<^verbatim>\<open>disableZoom\<close> is true changes
  nothing and emits nothing. While \<^verbatim>\<open>disableZoom\<close> is not true, it sets the zoom flag, leaves
  the Fullscreen flag as it was and emits exactly one opened notification carrying
  \<^verbatim>\<open>src\<close>; so the view becomes Zoomed(Windowed) whenever the Fullscreen flag was not set, as it
  is in the initial state.
\<close>

theorem image_click:
  assumes "node c = Some InlineImg"
  shows "(truthy (disableZoom (host w)) \<longrightarrow> step w (Click c) = w) \<and>
         (\<not> truthy (disableZoom (host w)) \<longrightarrow>
            isZoomMode (host (step w (Click c))) = Some True \<and>
            fullScreen (host (step w (Click c))) = fullScreen (host w) \<and>
            trace (step w (Click c)) = trace w @ [Opened (src (host w))]) \<and>
         (\<not> truthy (disableZoom (host w)) \<and> \<not> truthy (fullScreen (host w)) \<longrightarrow>
            view_state (host (step w (Click c))) = Zoomed Windowed)"
  using assms
  by (simp add: step_Click_InlineImg setZoomMode_def dispatchEvent_def set_isZoomMode_def
      view_state_simps truthy_def)

text \<open>
  C8, at the example: the image click in the initial world, with zoom disabled and with zoom
  enabled.
\<close>

theorem image_click_witness:
  "node (click_on InlineImg) = Some InlineImg \<and>
   truthy (disableZoom (host (init disabled_example))) \<and>
   step (init disabled_example) (Click (click_on InlineImg)) = init disabled_example \<and>
   \<not> truthy (disableZoom (host (init example))) \<and>
   \<not> truthy (fullScreen (host (init example))) \<and>
   isZoomMode (host (step (init example) (Click (click_on InlineImg)))) = Some True \<and>
   fullScreen (host (step (init example) (Click (click_on InlineImg)))) =
     fullScreen (host (init example)) \<and>
   trace (step (init example) (Click (click_on InlineImg))) =
     trace (init example) @ [Opened (src (host (init example)))] \<and>
   view_state (host (step (init example) (Click (click_on InlineImg)))) = Zoomed Windowed"
proof -
  have h1: "truthy (disableZoom (host (init disabled_example)))"
    by (simp add: init_def disabled_example_def constructed_def truthy_def)
  have h2: "\<not> truthy (disableZoom (host (init example)))"
    by (simp add: init_example_eq truthy_def)
  have h3: "\<not> truthy (fullScreen (host (init example)))"
    by (simp add: init_example_eq truthy_def)
  from image_click [OF node_click_on, of "init disabled_example"] h1
  have c1: "step (init disabled_example) (Click (click_on InlineImg)) = init disabled_example"
    by blast
  from image_click [OF node_click_on, of "init example"] h2 h3
  have c2: "isZoomMode (host (step (init example) (Click (click_on InlineImg)))) = Some True \<and>
   fullScreen (host (step (init example) (Click (click_on InlineImg)))) =
     fullScreen (host (init example)) \<and>
   trace (step (init example) (Click (click_on InlineImg))) =
     trace (init example) @ [Opened (src (host (init example)))] \<and>
   view_state (host (step (init example) (Click (click_on InlineImg)))) = Zoomed Windowed"
    by blast
  from h1 h2 h3 c1 c2 node_click_on [of InlineImg] show ?thesis by blast
qed

text \<open>
  Claim C9: a click whose propagation path holds neither an image nor one of the three
  known controls closes the view and emits a closed notification with reason
  \<^verbatim>\<open>OVERLAY_CLICK\<close> when the view is Zoomed(Windowed), and changes and emits nothing when the
  view is Zoomed(Fullscreen).
\<close>

theorem outside_click:
  assumes "\<forall>e\<in>set (composedPath c). \<not> is_zoom_ui e"
  shows "(view_state (host w) = Zoomed Windowed \<longrightarrow>
            view_state (host (step w (Click c))) = Closed_view \<and>
            trace (step w (Click c)) = trace w @ [Closed (src (host w)) ''OVERLAY_CLICK'']) \<and>
         (view_state (host w) = Zoomed Fullscreen_mode \<longrightarrow> step w (Click c) = w)"
proof -
  from assms path_of_node [of c] have n: "node c = None"
    by (cases "node c") (simp_all add: forEach_paths_eq)
  with assms show ?thesis
    by (simp add: step_Click_outside onClick_def forEach_paths_eq dispatchEvent_def
        set_isZoomMode_def view_state_simps truthy_def)
qed

text \<open>
  C9, at the example: a click on the overlay in the zoomed, windowed world and in the
  zoomed, fullscreen world.
\<close>

theorem outside_click_witness:
  "forEach_paths (composedPath overlay_click) True \<and>
   view_state (host zoomed_windowed) = Zoomed Windowed \<and>
   view_state (host (step zoomed_windowed (Click overlay_click))) = Closed_view \<and>
   trace (step zoomed_windowed (Click overlay_click)) =
     trace zoomed_windowed @ [Closed (src (host zoomed_windowed)) ''OVERLAY_CLICK''] \<and>
   view_state (host zoomed_fullscreen) = Zoomed Fullscreen_mode \<and>
   step zoomed_fullscreen (Click overlay_click) = zoomed_fullscreen"
proof -
  have v1: "view_state (host zoomed_windowed) = Zoomed Windowed"
    by (simp add: zoomed_windowed_eq view_state_simps)
  have v2: "view_state (host zoomed_fullscreen) = Zoomed Fullscreen_mode"
    by (simp add: zoomed_fullscreen_eq view_state_simps)
  from outside_click [OF overlay_click_outside(2), of zoomed_windowed] v1
  have c1: "view_state (host (step zoomed_windowed (Click overlay_click))) = Closed_view \<and>
   trace (step zoomed_windowed (Click overlay_click)) =
     trace zoomed_windowed @ [Closed (src (host zoomed_windowed)) ''OVERLAY_CLICK'']"
    by blast
  from outside_click [OF overlay_click_outside(2), of zoomed_fullscreen] v2
  have c2: "step zoomed_fullscreen (Click overlay_click) = zoomed_fullscreen"
    by blast
  from overlay_click_path v1 v2 c1 c2 show ?thesis by blast
qed

text \<open>
  Claim C10: \<^verbatim>\<open>__onClick\<close> does not read the zoom flag. A click whose propagation path holds
  neither an image nor a known control, while the Fullscreen flag is not set and the view is
  already Closed, still dispatches a closed notification with reason \<^verbatim>\<open>OVERLAY_CLICK\<close>,
  whereas Escape in the same world emits nothing.
\<close>

theorem outside_click_while_closed:
  assumes "\<forall>e\<in>set (composedPath c). \<not> is_zoom_ui e"
    and "\<not> truthy (fullScreen (host w))" "view_state (host w) = Closed_view"
  shows "trace (step w (Click c)) = trace w @ [Closed (src (host w)) ''OVERLAY_CLICK''] \<and>
         (is_escape e \<longrightarrow> trace (step w (KeyDown e)) = trace w)"
proof -
  from assms(1) path_of_node [of c] have n: "node c = None"
    by (cases "node c") (simp_all add: forEach_paths_eq)
  with assms show ?thesis
    by (simp add: step_Click_outside onClick_def forEach_paths_eq dispatchEvent_def
        set_isZoomMode_def step_KeyDown keydown_def view_state_simps truthy_def)
qed

text \<open>
  C10, at the example: a click on the host outside the image in the initial world.
\<close>

theorem outside_click_while_closed_witness:
  "forEach_paths (composedPath overlay_click) True \<and>
   \<not> truthy (fullScreen (host (init example))) \<and>
   view_state (host (init example)) = Closed_view \<and>
   is_escape escape_key \<and>
   trace (step (init example) (Click overlay_click)) =
     trace (init example) @ [Closed (src (host (init example))) ''OVERLAY_CLICK''] \<and>
   trace (step (init example) (KeyDown escape_key)) = trace (init example)"
proof -
  have h3: "\<not> truthy (fullScreen (host (init example)))"
    by (simp add: init_example_eq truthy_def)
  have h4: "view_state (host (init example)) = Closed_view"
    by (simp add: init_example_eq view_state_simps)
  from outside_click_while_closed [OF overlay_click_outside(2) h3 h4, of escape_key]
    overlay_click_path h3 h4 is_escape_escape_key
  show ?thesis by blast
qed

end
